theory Spec2Isabelle
  imports Main
begin

section \<open>Stream decoder (lib/openai: handleStreamResponse)\<close>

text \<open>
  The decoder reads the response body chunk by chunk. Each chunk is decoded to text on
  its own, split at newlines, blank lines are dropped, and every remaining line is
  handled in order. A JavaScript string is modelled as a \<^typ>\<open>string\<close>; the
  sequence of reads up to the one that reports \<open>done\<close> is a list of chunks.

  Of the declared interface \<open>OpenAIStreamResponse\<close> only the path
  \<open>choices[0]?.delta?.content\<close> is read, so the records below keep those fields.
  The optional chaining in the source marks what may be absent: the first choice, its
  delta and the content.
\<close>

record Delta =
  content :: "string option"

record Choice =
  delta :: "Delta option"

record OpenAIStreamResponse =
  choices :: "Choice list"

text \<open>
  \<open>JSON.parse\<close> belongs to the platform, not to the repository: it is a parameter
  \<open>parse\<close> of the model. \<open>parse data = None\<close> stands for an exception thrown inside
  the \<open>try\<close> block (a syntax error, or a value on which reading \<open>choices[0]\<close>
  throws); the \<open>catch\<close> swallows it.
\<close>

type_synonym json_parse = "string \<Rightarrow> OpenAIStreamResponse option"

record DecoderState =
  fullContent :: string
  delivered :: "string list"  \<comment> \<open>the arguments of the \<open>onStream\<close> calls, oldest first\<close>

definition initial_state :: DecoderState where
  "initial_state = \<lparr>fullContent = [], delivered = []\<rparr>"

text \<open>\<open>chunk.split('\n')\<close>: the pieces between newlines, a trailing empty piece included.\<close>

fun split_nl :: "string \<Rightarrow> string list" where
  "split_nl [] = [[]]"
| "split_nl (c # cs) =
     (if c = CHR 0x0A then [] # split_nl cs
      else (case split_nl cs of
              [] \<Rightarrow> [[c]]
            | l # ls \<Rightarrow> (c # l) # ls))"

text \<open>
  \<open>line.trim() !== ''\<close>: the white space that \<open>trim\<close> removes, among the characters
  a \<^typ>\<open>char\<close> can hold (tab, line feed, vertical tab, form feed, carriage return,
  space, no-break space).
\<close>

definition is_js_space :: "char \<Rightarrow> bool" where
  "is_js_space c = (c \<in> {CHR 0x09, CHR 0x0A, CHR 0x0B, CHR 0x0C, CHR 0x0D, CHR 0x20, CHR 0xA0})"

definition trim_nonempty :: "string \<Rightarrow> bool" where
  "trim_nonempty line = (\<not> list_all is_js_space line)"

definition chunk_lines :: "string \<Rightarrow> string list" where
  "chunk_lines chunk = filter trim_nonempty (split_nl chunk)"

definition startsWith :: "string \<Rightarrow> string \<Rightarrow> bool" where
  "startsWith p s = (take (length p) s = p)"

text \<open>\<open>parsed.choices[0]?.delta?.content || ''\<close>\<close>

definition extract_content :: "OpenAIStreamResponse \<Rightarrow> string" where
  "extract_content parsed =
     (case choices parsed of
        [] \<Rightarrow> []
      | c # _ \<Rightarrow> (case delta c of
                    None \<Rightarrow> []
                  | Some d \<Rightarrow> (case content d of None \<Rightarrow> [] | Some s \<Rightarrow> s)))"

text \<open>The body of the inner \<open>for\<close> loop, for one line.\<close>

definition process_line :: "json_parse \<Rightarrow> DecoderState \<Rightarrow> string \<Rightarrow> DecoderState" where
  "process_line parse st line =
     (if startsWith ''data: '' line then
        (let data = drop 6 line in
         if data = ''[DONE]'' then st
         else (case parse data of
                 None \<Rightarrow> st
               | Some parsed \<Rightarrow>
                   (let c = extract_content parsed in
                    if c \<noteq> [] then
                      st\<lparr>fullContent := fullContent st @ c,
                         delivered := delivered st @ [fullContent st @ c]\<rparr>
                    else st)))
      else st)"

text \<open>The body of the \<open>while\<close> loop, for one read that is not \<open>done\<close>.\<close>

definition process_chunk :: "json_parse \<Rightarrow> DecoderState \<Rightarrow> string \<Rightarrow> DecoderState" where
  "process_chunk parse st chunk = foldl (process_line parse) st (chunk_lines chunk)"

definition run_decoder :: "json_parse \<Rightarrow> string list \<Rightarrow> DecoderState" where
  "run_decoder parse chunks = foldl (process_chunk parse) initial_state chunks"

definition handleStreamResponse :: "json_parse \<Rightarrow> string list \<Rightarrow> string" where
  "handleStreamResponse parse chunks = fullContent (run_decoder parse chunks)"


text \<open>
  The guarantee in the specification's words: the fragment a frame stands for is the
  content of its payload when the frame is a \<open>data: \<close> frame that parses, and nothing
  otherwise; the result is the fragments of all frames, in order of arrival.
\<close>

definition fragment :: "json_parse \<Rightarrow> string \<Rightarrow> string" where
  "fragment parse line =
     (if startsWith ''data: '' line \<and> drop 6 line \<noteq> ''[DONE]'' then
        (case parse (drop 6 line) of None \<Rightarrow> [] | Some parsed \<Rightarrow> extract_content parsed)
      else [])"

text \<open>
  The frames of a response are the newline-delimited, non-blank units of the whole
  stream, wherever the reads happen to cut it.
\<close>

definition stream_frames :: "string list \<Rightarrow> string list" where
  "stream_frames chunks = chunk_lines (concat chunks)"

text \<open>
  What the decoder's loops go through instead: the lines of each read, every read split
  on its own.
\<close>

definition read_lines :: "string list \<Rightarrow> string list" where
  "read_lines chunks = concat (map chunk_lines chunks)"

text \<open>A read ends at a line boundary when it is empty or its last character is a newline.\<close>

definition ends_at_line_boundary :: "string \<Rightarrow> bool" where
  "ends_at_line_boundary chunk = (chunk = [] \<or> last chunk = CHR 0x0A)"

text \<open>
  For the examples: the value of \<open>JSON.parse\<close> on the two payloads of the
  specification's reassembly example; every other payload used below is not JSON.
\<close>

definition content_frame :: "string \<Rightarrow> OpenAIStreamResponse" where
  "content_frame s = \<lparr>choices = [\<lparr>delta = Some \<lparr>content = Some s\<rparr>\<rparr>]\<rparr>"

definition example_parse :: json_parse where
  \<open>example_parse payload =
     (if payload = ''{"choices":[{"delta":{"content":"Hel"}}]}'' then Some (content_frame ''Hel'')
      else if payload = ''{"choices":[{"delta":{"content":"lo"}}]}'' then Some (content_frame ''lo'')
      else None)\<close>

section \<open>Record store (lib/db)\<close>

text \<open>
  A Dexie table with the schema \<open>++id\<close> holds rows under an auto-incremented primary
  key. The model keeps the stored rows as pairs of key and row, and the key generator of
  the object store, which starts at 1, is raised by an explicit larger key and is not
  reset by \<open>clear\<close>. Adding a row under a key that is already present is rejected
  (\<open>ConstraintError\<close>); a generated key is taken from the generator, which the engine
  keeps above every numeric key it has stored. \<open>StoreRejected\<close> stands for any other rejection of a write by
  the storage engine; \<open>TypeError\<close> for reading a property of \<open>undefined\<close>.
\<close>

datatype store_error = ConstraintError | StoreRejected | TypeError

record 'r Table =
  rows :: "(nat \<times> 'r) list"
  nextKey :: nat

definition empty_table :: "'r Table" where
  "empty_table = \<lparr>rows = [], nextKey = 1\<rparr>"

definition table_keys :: "'r Table \<Rightarrow> nat list" where
  "table_keys t = map fst (rows t)"

text \<open>\<open>table.toArray()\<close>: the rows in primary-key order, each carrying its \<open>id\<close>.\<close>

definition toArray :: "'r Table \<Rightarrow> (nat \<times> 'r) list" where
  "toArray t = sort_key fst (rows t)"

text \<open>\<open>table.clear()\<close>\<close>

definition clear :: "'r Table \<Rightarrow> 'r Table" where
  "clear t = t\<lparr>rows := []\<rparr>"

text \<open>\<open>table.add(item)\<close>: \<open>item.id\<close> may be absent (\<open>id?: number\<close>).\<close>

definition add :: "nat option \<times> 'r \<Rightarrow> 'r Table \<Rightarrow> store_error + 'r Table" where
  "add item t =
     (case fst item of
        None \<Rightarrow> Inr (t\<lparr>rows := rows t @ [(nextKey t, snd item)], nextKey := Suc (nextKey t)\<rparr>)
      | Some k \<Rightarrow>
          if k \<in> set (table_keys t) then Inl ConstraintError
          else Inr (t\<lparr>rows := rows t @ [(k, snd item)], nextKey := max (nextKey t) (Suc k)\<rparr>))"

fun add_all :: "(nat option \<times> 'r) list \<Rightarrow> 'r Table \<Rightarrow> store_error + 'r Table" where
  "add_all [] t = Inr t"
| "add_all (item # items) t =
     (case add item t of Inl e \<Rightarrow> Inl e | Inr t' \<Rightarrow> add_all items t')"

text \<open>
  \<open>table.bulkAdd(items)\<close>: the promise rejects when one of the additions fails, or
  when the engine rejects the write as a whole (the flag \<open>rejected\<close>).
\<close>

definition bulkAdd :: "bool \<Rightarrow> (nat option \<times> 'r) list \<Rightarrow> 'r Table \<Rightarrow> store_error + 'r Table" where
  "bulkAdd rejected items t = (if rejected then Inl StoreRejected else add_all items t)"

text \<open>\<open>collection.modify(changes)\<close>: every row that the collection matches is changed.\<close>

definition modify :: "('r \<Rightarrow> bool) \<Rightarrow> ('r \<Rightarrow> 'r) \<Rightarrow> 'r Table \<Rightarrow> 'r Table" where
  "modify matches change t =
     t\<lparr>rows := map (\<lambda>(k, r). if matches r then (k, change r) else (k, r)) (rows t)\<rparr>"

text \<open>
  \<open>table.where({field: value, ...})\<close> with several criteria and no compound index on
  them, as Dexie evaluates it: the first criterion whose field has an index selects by
  that index, and every other criterion becomes a filter that compares the given value
  with the row's field as IndexedDB keys (\<open>indexedDB.cmp\<close>). The comparison is refused
  for a value that is not a valid key, and the filter then answers \<open>false\<close>. Numbers are
  valid keys; booleans are not.
\<close>

datatype criterion_value = NumberValue nat | BooleanValue bool

definition valid_key :: "criterion_value \<Rightarrow> bool" where
  "valid_key v = (case v of NumberValue n \<Rightarrow> True | BooleanValue b \<Rightarrow> False)"

definition key_equals :: "criterion_value \<Rightarrow> criterion_value \<Rightarrow> bool" where
  "key_equals a b = (valid_key a \<and> valid_key b \<and> a = b)"

text \<open>
  A value as JavaScript has it after \<open>JSON.parse\<close>, for a field whose content the code
  does not control: absent, \<open>null\<close>, a boolean, a number (integers only here), a string,
  or an object or array (opaque). \<open>js_truthy\<close> is the test that \<open>||\<close> applies to its
  left operand.
\<close>

datatype js_value = JUndefined | JNull | JBool bool | JNum int | JStr string | JObject

definition js_truthy :: "js_value \<Rightarrow> bool" where
  "js_truthy v =
     (case v of
        JUndefined \<Rightarrow> False
      | JNull \<Rightarrow> False
      | JBool b \<Rightarrow> b
      | JNum n \<Rightarrow> n \<noteq> 0
      | JStr s \<Rightarrow> s \<noteq> []
      | JObject \<Rightarrow> True)"

text \<open>\<open>a || b\<close>: the left operand when it is truthy, the right one otherwise.\<close>

definition js_or :: "js_value \<Rightarrow> js_value \<Rightarrow> js_value" where
  "js_or a b = (if js_truthy a then a else b)"

datatype AnalysisStatus = needs_clarification | analyzing | complete

text \<open>
  The interface \<open>CareerAnalysis\<close>. The nested plan, deep-dive and roadmap objects are
  never inspected by the store, so their type is a parameter. \<open>interestsConfirmed\<close> is
  declared \<open>boolean\<close>, but a row holds whatever value the writer put there.
\<close>

record 'p CareerAnalysis =
  userId :: nat
  status :: AnalysisStatus
  clarifications :: "string list"
  interestsConfirmed :: js_value
  plans :: 'p
  planADeepDive :: 'p
  summary :: string
  roadmap :: 'p
  latest :: bool
  createdAt :: nat
  updatedAt :: nat
  version :: nat

text \<open>
  The database \<open>SkillLeadDB\<close>: seven tables. Only the rows of \<open>analyses\<close> are looked
  into; the rows of the other tables are opaque.
\<close>

record 'p Store =
  users :: "'p Table"
  studentProfiles :: "'p Table"
  professionalProfiles :: "'p Table"
  analyses :: "'p CareerAnalysis Table"
  chatThreads :: "'p Table"
  chatMessages :: "'p Table"
  settings :: "'p Table"

definition empty_store :: "'p Store" where
  "empty_store =
     \<lparr>users = empty_table, studentProfiles = empty_table, professionalProfiles = empty_table,
      analyses = empty_table, chatThreads = empty_table, chatMessages = empty_table,
      settings = empty_table\<rparr>"

section \<open>Analysis versioning (pages/AnalysisPage: startAnalysis)\<close>

text \<open>
  What \<open>startAnalysis\<close> reads of the analysis result. The result is untyped: it is the
  mock data or \<open>JSON.parse\<close> of the provider's answer. \<open>clarifications\<close> may be
  absent, and \<open>interestsConfirmed\<close> may be absent or hold any value.
\<close>

record 'p AnalysisResult =
  res_clarifications :: "string list option"
  res_interestsConfirmed :: js_value
  res_plans :: 'p
  res_planADeepDive :: 'p
  res_summary :: string
  res_roadmap :: 'p

text \<open>\<open>analysisResult.clarifications || []\<close>\<close>

definition or_empty :: "'a list option \<Rightarrow> 'a list" where
  "or_empty xs = (case xs of None \<Rightarrow> [] | Some l \<Rightarrow> l)"

text \<open>The object literal \<open>analysisRecord\<close>, with \<open>analysisResult.interestsConfirmed || true\<close>.\<close>

definition analysisRecord :: "nat \<Rightarrow> nat \<Rightarrow> 'p AnalysisResult \<Rightarrow> 'p CareerAnalysis" where
  "analysisRecord now uid res =
     \<lparr>userId = uid,
      status = complete,
      clarifications = or_empty (res_clarifications res),
      interestsConfirmed = js_or (res_interestsConfirmed res) (JBool True),
      plans = res_plans res,
      planADeepDive = res_planADeepDive res,
      summary = res_summary res,
      roadmap = res_roadmap res,
      latest = True,
      createdAt = now,
      updatedAt = now,
      version = 1\<rparr>"

text \<open>
  The criteria \<open>{ userId: uid, latest: flag }\<close> on \<open>db.analyses\<close>, whose schema indexes
  \<open>userId\<close> and \<open>latest\<close> one by one: \<open>userId\<close> selects by its index, \<open>latest\<close> is
  the filter that compares keys.
\<close>

definition where_userId_latest :: "nat \<Rightarrow> bool \<Rightarrow> 'p CareerAnalysis \<Rightarrow> bool" where
  "where_userId_latest uid flag r =
     (userId r = uid \<and> key_equals (BooleanValue flag) (BooleanValue (latest r)))"

text \<open>
  What the page holds when \<open>startAnalysis\<close> is called: the profile and its type from
  the profile store, and \<open>currentUser?.id\<close> from the auth store, each possibly missing.
\<close>

datatype ProfileType = student | professional

record 'p PageContext =
  profile :: "'p option"
  currentUserId :: "nat option"
  profileType :: "ProfileType option"

text \<open>
  The guard \<open>if (!profile || !currentUser?.id || !profileType) return\<close>: the user id
  with which the call goes on, if it does. The id 0 is falsy.
\<close>

definition current_uid :: "'p PageContext \<Rightarrow> nat option" where
  "current_uid ctx =
     (case currentUserId ctx of
        None \<Rightarrow> None
      | Some i \<Rightarrow> if profile ctx = None \<or> i = 0 \<or> profileType ctx = None then None else Some i)"

text \<open>
  The two awaited writes can each be rejected by the storage engine; which one is, if
  any, is a parameter.
\<close>

datatype write_fault = NoFault | ModifyRejects | AddRejects

text \<open>
  What \<open>startAnalysis\<close> does to the database, given the analysis result it obtained at
  time \<open>now\<close>: after the guard, first
  \<open>db.analyses.where({userId, latest: true}).modify({latest: false})\<close>, then
  \<open>db.analyses.add(analysisRecord)\<close>. The two writes are awaited one after the other,
  with no enclosing transaction; a rejection leaves the \<open>try\<close> block at that point and
  is reported by the \<open>catch\<close>.
\<close>

definition startAnalysis ::
  "write_fault \<Rightarrow> nat \<Rightarrow> 'p PageContext \<Rightarrow> 'p AnalysisResult \<Rightarrow> 'p Store
     \<Rightarrow> (store_error + unit) \<times> 'p Store" where
  "startAnalysis fault now ctx res db =
     (case current_uid ctx of
        None \<Rightarrow> (Inr (), db)
      | Some uid \<Rightarrow>
          if fault = ModifyRejects then (Inl StoreRejected, db)
          else
            (let db1 = db\<lparr>analyses :=
                            modify (where_userId_latest uid True) (\<lambda>r. r\<lparr>latest := False\<rparr>)
                              (analyses db)\<rparr>
             in if fault = AddRejects then (Inl StoreRejected, db1)
                else (case add (None, analysisRecord now uid res) (analyses db1) of
                        Inl e \<Rightarrow> (Inl e, db1)
                      | Inr t \<Rightarrow> (Inr (), db1\<lparr>analyses := t\<rparr>))))"

text \<open>One call of \<open>startAnalysis\<close> with its circumstances, and a sequence of calls.\<close>

record 'p AnalysisCall =
  call_fault :: write_fault
  call_now :: nat
  call_ctx :: "'p PageContext"
  call_result :: "'p AnalysisResult"

definition run_call :: "'p AnalysisCall \<Rightarrow> 'p Store \<Rightarrow> 'p Store" where
  "run_call c db = snd (startAnalysis (call_fault c) (call_now c) (call_ctx c) (call_result c) db)"

definition run_calls :: "'p AnalysisCall list \<Rightarrow> 'p Store \<Rightarrow> 'p Store" where
  "run_calls cs db = foldl (\<lambda>d c. run_call c d) db cs"

definition analysis_rows :: "'p Store \<Rightarrow> 'p CareerAnalysis list" where
  "analysis_rows db = map snd (rows (analyses db))"

definition user_rows :: "nat \<Rightarrow> 'p Store \<Rightarrow> 'p CareerAnalysis list" where
  "user_rows uid db = filter (\<lambda>r. userId r = uid) (analysis_rows db)"

definition latest_rows :: "nat \<Rightarrow> 'p Store \<Rightarrow> 'p CareerAnalysis list" where
  "latest_rows uid db = filter latest (user_rows uid db)"


text \<open>The version the specification asks for: one more than the largest so far, or 1.\<close>

definition next_version :: "nat \<Rightarrow> 'p Store \<Rightarrow> nat" where
  "next_version uid db = Suc (fold max (map version (user_rows uid db)) 0)"


section \<open>Backup codec (lib/db: exportAllData, importData)\<close>

text \<open>
  The backup document. After \<open>JSON.parse\<close> any key may be missing: \<open>data\<close> itself
  (then \<open>data.users\<close> throws) or the array of a table (then \<open>|| []\<close> applies). A row of
  the document carries its \<open>id\<close> if it has one.
\<close>

record 'p BackupData =
  data_users :: "(nat option \<times> 'p) list option"
  data_studentProfiles :: "(nat option \<times> 'p) list option"
  data_professionalProfiles :: "(nat option \<times> 'p) list option"
  data_analyses :: "(nat option \<times> 'p CareerAnalysis) list option"
  data_chatThreads :: "(nat option \<times> 'p) list option"
  data_chatMessages :: "(nat option \<times> 'p) list option"
  data_settings :: "(nat option \<times> 'p) list option"

record 'p Backup =
  backup_version :: nat
  exported :: string
  data :: "'p BackupData option"

definition exported_rows :: "'r Table \<Rightarrow> (nat option \<times> 'r) list option" where
  "exported_rows t = Some (map (\<lambda>(k, r). (Some k, r)) (toArray t))"

text \<open>\<open>exportAllData\<close>; \<open>stamp\<close> is \<open>new Date().toISOString()\<close>.\<close>

definition exportAllData :: "string \<Rightarrow> 'p Store \<Rightarrow> 'p Backup" where
  "exportAllData stamp db =
     \<lparr>backup_version = 1,
      exported = stamp,
      data = Some
        \<lparr>data_users = exported_rows (users db),
         data_studentProfiles = exported_rows (studentProfiles db),
         data_professionalProfiles = exported_rows (professionalProfiles db),
         data_analyses = exported_rows (analyses db),
         data_chatThreads = exported_rows (chatThreads db),
         data_chatMessages = exported_rows (chatMessages db),
         data_settings = exported_rows (settings db)\<rparr>\<rparr>"

text \<open>
  \<open>db.transaction('rw', tables, scope)\<close> is Dexie's: when the promise of the scope
  function rejects, the transaction aborts and none of its writes is kept; otherwise
  all of them are committed together.
\<close>

definition transaction :: "('s \<Rightarrow> store_error + 's) \<Rightarrow> 's \<Rightarrow> (store_error + unit) \<times> 's" where
  "transaction scope db =
     (case scope db of
        Inl e \<Rightarrow> (Inl e, db)
      | Inr db' \<Rightarrow> (Inr (), db'))"

definition and_then :: "store_error + 'a \<Rightarrow> ('a \<Rightarrow> store_error + 'b) \<Rightarrow> store_error + 'b" where
  "and_then r f = (case r of Inl e \<Rightarrow> Inl e | Inr v \<Rightarrow> f v)"

datatype TableName =
  Users | StudentProfiles | ProfessionalProfiles | Analyses | ChatThreads | ChatMessages | Settings

text \<open>
  The scope function of \<open>importData\<close>: every table is cleared, then the rows of the
  document are added table by table. \<open>forced\<close> names the tables whose bulk insert the
  engine rejects.
\<close>

definition import_scope :: "(TableName \<Rightarrow> bool) \<Rightarrow> 'p Backup \<Rightarrow> 'p Store \<Rightarrow> store_error + 'p Store" where
  "import_scope forced backupData db =
     (case data backupData of
        None \<Rightarrow> Inl TypeError
      | Some d \<Rightarrow>
          and_then (bulkAdd (forced Users) (or_empty (data_users d)) (clear (users db))) (\<lambda>t1.
          and_then (bulkAdd (forced StudentProfiles) (or_empty (data_studentProfiles d))
                      (clear (studentProfiles db))) (\<lambda>t2.
          and_then (bulkAdd (forced ProfessionalProfiles) (or_empty (data_professionalProfiles d))
                      (clear (professionalProfiles db))) (\<lambda>t3.
          and_then (bulkAdd (forced Analyses) (or_empty (data_analyses d)) (clear (analyses db))) (\<lambda>t4.
          and_then (bulkAdd (forced ChatThreads) (or_empty (data_chatThreads d))
                      (clear (chatThreads db))) (\<lambda>t5.
          and_then (bulkAdd (forced ChatMessages) (or_empty (data_chatMessages d))
                      (clear (chatMessages db))) (\<lambda>t6.
          and_then (bulkAdd (forced Settings) (or_empty (data_settings d)) (clear (settings db))) (\<lambda>t7.
          Inr \<lparr>users = t1, studentProfiles = t2, professionalProfiles = t3, analyses = t4,
               chatThreads = t5, chatMessages = t6, settings = t7\<rparr>))))))))"

definition importData :: "(TableName \<Rightarrow> bool) \<Rightarrow> 'p Backup \<Rightarrow> 'p Store \<Rightarrow> (store_error + unit) \<times> 'p Store" where
  "importData forced backupData db = transaction (import_scope forced backupData) db"

definition no_faults :: "TableName \<Rightarrow> bool" where
  "no_faults n = False"

text \<open>Primary keys identify rows: no key occurs twice in a table.\<close>

definition distinct_keys :: "'r Table \<Rightarrow> bool" where
  "distinct_keys t = distinct (table_keys t)"

definition wf_store :: "'p Store \<Rightarrow> bool" where
  "wf_store db =
     (distinct_keys (users db) \<and> distinct_keys (studentProfiles db) \<and>
      distinct_keys (professionalProfiles db) \<and> distinct_keys (analyses db) \<and>
      distinct_keys (chatThreads db) \<and> distinct_keys (chatMessages db) \<and>
      distinct_keys (settings db))"

text \<open>Two stores hold the same rows in every table, whatever their order.\<close>

definition same_row_sets :: "'p Store \<Rightarrow> 'p Store \<Rightarrow> bool" where
  "same_row_sets a b =
     (set (rows (users a)) = set (rows (users b)) \<and>
      set (rows (studentProfiles a)) = set (rows (studentProfiles b)) \<and>
      set (rows (professionalProfiles a)) = set (rows (professionalProfiles b)) \<and>
      set (rows (analyses a)) = set (rows (analyses b)) \<and>
      set (rows (chatThreads a)) = set (rows (chatThreads b)) \<and>
      set (rows (chatMessages a)) = set (rows (chatMessages b)) \<and>
      set (rows (settings a)) = set (rows (settings b)))"

section \<open>Credential holder (lib/openai: getApiKey, setApiKey, clearApiKey)\<close>

datatype KeyStored = session | encrypted_local | none

datatype Theme = light | dark | system

record AppSettings =
  openaiKeyStored :: KeyStored
  reduceMotion :: bool
  theme :: Theme
  app_locale :: string
  settings_updatedAt :: nat

text \<open>The state of \<open>useSettingsStore\<close> (lib/stores).\<close>

record SettingsState =
  current_settings :: "AppSettings option"
  openaiKey :: string
  isKeyValid :: bool
  animationsEnabled :: bool

text \<open>
  What the credential functions read and write: the two web storages (maps from item
  name to value) and the settings store.
\<close>

record Browser =
  sessionStorage :: "string \<rightharpoonup> string"
  localStorage :: "string \<rightharpoonup> string"
  settingsStore :: SettingsState

text \<open>
  \<open>updateSetting('openaiKeyStored', value)\<close>: nothing happens while \<open>settings\<close> is
  \<open>null\<close>.
\<close>

definition updateSetting_openaiKeyStored :: "nat \<Rightarrow> KeyStored \<Rightarrow> SettingsState \<Rightarrow> SettingsState" where
  "updateSetting_openaiKeyStored now v st =
     (case current_settings st of
        None \<Rightarrow> st
      | Some cur \<Rightarrow> st\<lparr>current_settings := Some (cur\<lparr>openaiKeyStored := v, settings_updatedAt := now\<rparr>)\<rparr>)"

text \<open>A JavaScript string is truthy when it is not empty; \<open>getItem\<close> gives \<open>null\<close> (falsy) for a missing item.\<close>

definition truthy :: "string option \<Rightarrow> bool" where
  "truthy v = (case v of None \<Rightarrow> False | Some s \<Rightarrow> s \<noteq> [])"

definition getApiKey :: "Browser \<Rightarrow> string option" where
  "getApiKey b =
     (let sessionKey = sessionStorage b ''openai-api-key'' in
      if truthy sessionKey then sessionKey
      else
        (case current_settings (settingsStore b) of
           None \<Rightarrow> None
         | Some st \<Rightarrow>
             if openaiKeyStored st = encrypted_local then
               (let encryptedKey = localStorage b ''openai-api-key-encrypted'' in
                if truthy encryptedKey then None else None)
             else None))"

definition setApiKey :: "nat \<Rightarrow> string \<Rightarrow> bool \<Rightarrow> Browser \<Rightarrow> Browser" where
  "setApiKey now key persistent b =
     (let b1 =
        (if persistent then
           b\<lparr>localStorage := (localStorage b)(''openai-api-key-encrypted'' \<mapsto> key),
             settingsStore := updateSetting_openaiKeyStored now encrypted_local (settingsStore b)\<rparr>
         else
           b\<lparr>sessionStorage := (sessionStorage b)(''openai-api-key'' \<mapsto> key),
             settingsStore := updateSetting_openaiKeyStored now session (settingsStore b)\<rparr>)
      in b1\<lparr>settingsStore := (settingsStore b1)\<lparr>openaiKey := key\<rparr>\<rparr>)"

definition clearApiKey :: "nat \<Rightarrow> Browser \<Rightarrow> Browser" where
  "clearApiKey now b =
     b\<lparr>sessionStorage := (sessionStorage b)(''openai-api-key'' := None),
       localStorage := (localStorage b)(''openai-api-key-encrypted'' := None),
       settingsStore :=
         updateSetting_openaiKeyStored now none
           ((settingsStore b)\<lparr>openaiKey := [], isKeyValid := False\<rparr>)\<rparr>"


section \<open>Example data\<close>

definition example_result :: "string AnalysisResult" where
  "example_result =
     \<lparr>res_clarifications = None, res_interestsConfirmed = JBool False, res_plans = ''plans'',
      res_planADeepDive = ''deep dive'', res_summary = ''summary'', res_roadmap = ''roadmap''\<rparr>"

text \<open>A result whose \<open>interestsConfirmed\<close> is the string \<open>false\<close>, not the boolean.\<close>

definition string_result :: "string AnalysisResult" where
  "string_result = example_result\<lparr>res_interestsConfirmed := JStr ''false''\<rparr>"

definition example_ctx :: "nat \<Rightarrow> string PageContext" where
  "example_ctx uid =
     \<lparr>profile = Some ''profile'', currentUserId = Some uid, profileType = Some student\<rparr>"

definition example_call :: "write_fault \<Rightarrow> nat \<Rightarrow> nat \<Rightarrow> string AnalysisCall" where
  "example_call f now uid =
     \<lparr>call_fault = f, call_now = now, call_ctx = example_ctx uid, call_result = example_result\<rparr>"

definition example_calls :: "string AnalysisCall list" where
  "example_calls = [example_call NoFault 10 1, example_call NoFault 11 2, example_call NoFault 12 1]"

text \<open>A store in which user 1 has recorded one analysis.\<close>

definition example_db :: "string Store" where
  "example_db = run_calls [example_call NoFault 10 1] empty_store"

text \<open>A store with two users, three analyses and a chat thread.\<close>

definition example_store :: "string Store" where
  "example_store =
     (run_calls example_calls empty_store)
       \<lparr>users := \<lparr>rows = [(1, ''Ada''), (2, ''Grace'')], nextKey = 3\<rparr>,
        chatThreads := \<lparr>rows = [(1, ''thread'')], nextKey = 2\<rparr>\<rparr>"

text \<open>A backup document in which two user rows claim the same \<open>id\<close>.\<close>

definition conflicting_backup :: "string Backup" where
  "conflicting_backup =
     \<lparr>backup_version = 1,
      exported = ''2024-01-01T00:00:00.000Z'',
      data = Some
        \<lparr>data_users = Some [(Some 7, ''Ada''), (Some 7, ''Eve'')],
         data_studentProfiles = None,
         data_professionalProfiles = None,
         data_analyses = None,
         data_chatThreads = None,
         data_chatMessages = None,
         data_settings = None\<rparr>\<rparr>"

definition only_analyses_fails :: "TableName \<Rightarrow> bool" where
  "only_analyses_fails n = (n = Analyses)"

definition default_settings :: AppSettings where
  "default_settings =
     \<lparr>openaiKeyStored = none, reduceMotion = False, theme = system, app_locale = ''en'',
      settings_updatedAt = 0\<rparr>"

definition fresh_browser :: "AppSettings option \<Rightarrow> Browser" where
  "fresh_browser st =
     \<lparr>sessionStorage = Map.empty, localStorage = Map.empty,
      settingsStore = \<lparr>current_settings = st, openaiKey = [], isKeyValid = False,
                       animationsEnabled = True\<rparr>\<rparr>"

section \<open>Properties of the stream decoder\<close>

lemma split_nl_nonempty: "split_nl s \<noteq> []"
  by (induction s) (auto split: list.splits)

lemma split_nl_append: "split_nl (a @ CHR 0x0A # b) = split_nl a @ split_nl b"
  by (induction a) (auto split: list.splits simp: split_nl_nonempty)

lemma split_nl_single: "CHR 0x0A \<notin> set l \<Longrightarrow> split_nl l = [l]"
  by (induction l) auto

lemma chunk_lines_append: "chunk_lines (a @ CHR 0x0A # b) = chunk_lines a @ chunk_lines b"
  by (simp add: chunk_lines_def split_nl_append)

lemma chunk_lines_single:
  "CHR 0x0A \<notin> set l \<Longrightarrow> chunk_lines l = (if trim_nonempty l then [l] else [])"
  by (simp add: chunk_lines_def split_nl_single)

lemma fullContent_process_line:
  "fullContent (process_line parse st line) = fullContent st @ fragment parse line"
  by (simp add: process_line_def fragment_def Let_def split: option.splits)

lemma fullContent_lines:
  "fullContent (foldl (process_line parse) st ls) = fullContent st @ concat (map (fragment parse) ls)"
  by (induction ls arbitrary: st) (simp_all add: fullContent_process_line)

lemma fullContent_chunks:
  "fullContent (foldl (process_chunk parse) st cs) =
     fullContent st @ concat (map (fragment parse) (read_lines cs))"
  by (induction cs arbitrary: st)
     (simp_all add: process_chunk_def fullContent_lines read_lines_def)

lemma process_line_skip:
  "\<not> startsWith ''data: '' l \<or> drop 6 l = ''[DONE]'' \<or> parse (drop 6 l) = None
   \<Longrightarrow> process_line parse st l = st"
  by (auto simp: process_line_def Let_def)

lemma process_chunk_skip_line:
  assumes "CHR 0x0A \<notin> set l" and "\<And>st. process_line parse st l = st"
  shows "process_chunk parse st (a @ CHR 0x0A # l @ CHR 0x0A # b)
           = process_chunk parse st (a @ CHR 0x0A # b)"
proof -
  have "chunk_lines (a @ CHR 0x0A # l @ CHR 0x0A # b) = chunk_lines a @ chunk_lines l @ chunk_lines b"
    using chunk_lines_append [of a "l @ CHR 0x0A # b"] chunk_lines_append [of l b] by simp
  then show ?thesis
    using assms by (simp add: process_chunk_def chunk_lines_append chunk_lines_single)
qed

lemma process_chunk_skip_last:
  assumes "CHR 0x0A \<notin> set l" and "\<And>st. process_line parse st l = st"
  shows "process_chunk parse st (a @ CHR 0x0A # l) = process_chunk parse st a"
  using assms by (simp add: process_chunk_def chunk_lines_append chunk_lines_single)

lemma process_chunk_skip_first:
  assumes "CHR 0x0A \<notin> set l" and "\<And>st. process_line parse st l = st"
  shows "process_chunk parse st (l @ CHR 0x0A # b) = process_chunk parse st b"
  using assms by (simp add: process_chunk_def chunk_lines_append chunk_lines_single)

lemma run_decoder_replace:
  assumes "\<And>st. foldl (process_chunk parse) st xs = foldl (process_chunk parse) st ys"
  shows "run_decoder parse (cs1 @ xs @ cs2) = run_decoder parse (cs1 @ ys @ cs2)"
  using assms by (simp add: run_decoder_def)

lemma chunk_lines_empty: "chunk_lines [] = []"
  by (simp add: chunk_lines_def trim_nonempty_def)

lemma chunk_lines_boundary:
  assumes "ends_at_line_boundary a"
  shows "chunk_lines (a @ b) = chunk_lines a @ chunk_lines b"
proof (cases "a = []")
  case True
  then show ?thesis by (simp add: chunk_lines_empty)
next
  case False
  with assms have "a = butlast a @ [CHR 0x0A]"
    by (simp add: ends_at_line_boundary_def) (metis append_butlast_last_id)
  then obtain a' where a: "a = a' @ [CHR 0x0A]" ..
  have "chunk_lines (a' @ CHR 0x0A # []) = chunk_lines a'"
    using chunk_lines_append [of a' "[]"] by (simp add: chunk_lines_empty)
  with a show ?thesis
    using chunk_lines_append [of a' b] by simp
qed

text \<open>When every read ends at a line boundary, the reads cut no frame.\<close>

lemma frames_of_whole_reads:
  "\<forall>c \<in> set chunks. ends_at_line_boundary c \<Longrightarrow> stream_frames chunks = read_lines chunks"
proof (induction chunks)
  case Nil
  then show ?case by (simp add: stream_frames_def read_lines_def chunk_lines_empty)
next
  case (Cons c chunks)
  then show ?case
    by (simp add: stream_frames_def read_lines_def chunk_lines_boundary)
qed

text \<open>
  C4 (as the code has it). The value returned by the decoder is the concatenation, in
  order of arrival, of the fragments of the lines of each read, every read being split
  into lines on its own; only a \<open>data: \<close> line whose payload parses has a fragment, and
  none is duplicated or reordered. When every read ends at a line boundary, these lines
  are the frames of the stream, and the value returned is the concatenation of the
  fragments of all frames. A line whose payload does not parse, placed between two other
  lines of a read, changes neither the accumulated text nor what is delivered to the
  callback: decoding goes on as if the line were not there.
\<close>

theorem decoder_concatenates_read_fragments:
  "handleStreamResponse parse chunks = concat (map (fragment parse) (read_lines chunks))
   \<and> ((\<forall>c \<in> set chunks. ends_at_line_boundary c) \<longrightarrow>
        handleStreamResponse parse chunks = concat (map (fragment parse) (stream_frames chunks)))
   \<and> (parse (drop 6 bad) = None \<longrightarrow> CHR 0x0A \<notin> set bad \<longrightarrow>
        run_decoder parse (cs1 @ [a @ CHR 0x0A # bad @ CHR 0x0A # b] @ cs2)
          = run_decoder parse (cs1 @ [a @ CHR 0x0A # b] @ cs2))"
proof (intro conjI impI)
  show reads: "handleStreamResponse parse chunks = concat (map (fragment parse) (read_lines chunks))"
    by (simp add: handleStreamResponse_def run_decoder_def fullContent_chunks initial_state_def)
  assume "\<forall>c \<in> set chunks. ends_at_line_boundary c"
  then show "handleStreamResponse parse chunks = concat (map (fragment parse) (stream_frames chunks))"
    using reads by (simp add: frames_of_whole_reads)
next
  assume bad: "parse (drop 6 bad) = None" and nl: "CHR 0x0A \<notin> set bad"
  have skip: "\<And>st. process_line parse st bad = st"
    using bad by (simp add: process_line_skip)
  show "run_decoder parse (cs1 @ [a @ CHR 0x0A # bad @ CHR 0x0A # b] @ cs2)
          = run_decoder parse (cs1 @ [a @ CHR 0x0A # b] @ cs2)"
    by (rule run_decoder_replace) (simp add: process_chunk_skip_line [OF nl skip])
qed

theorem decoder_concatenates_read_fragments_witness:
  \<open>list_all ends_at_line_boundary
     [''data: {"choices":[{"delta":{"content":"Hel"}}]}'' @ [CHR 0x0A],
      ''data: {"choices":[{"delta":{"content":"lo"}}]}'' @ CHR 0x0A # ''data: [DONE]'' @ [CHR 0x0A]]
   \<and> handleStreamResponse example_parse
     [''data: {"choices":[{"delta":{"content":"Hel"}}]}'' @ [CHR 0x0A],
      ''data: {"choices":[{"delta":{"content":"lo"}}]}'' @ CHR 0x0A # ''data: [DONE]'' @ [CHR 0x0A]]
     = concat (map (fragment example_parse) (stream_frames
     [''data: {"choices":[{"delta":{"content":"Hel"}}]}'' @ [CHR 0x0A],
      ''data: {"choices":[{"delta":{"content":"lo"}}]}'' @ CHR 0x0A # ''data: [DONE]'' @ [CHR 0x0A]]))
   \<and> handleStreamResponse example_parse
     [''data: {"choices":[{"delta":{"content":"Hel"}}]}'' @ [CHR 0x0A],
      ''data: {"choices":[{"delta":{"content":"lo"}}]}'' @ CHR 0x0A # ''data: [DONE]'' @ [CHR 0x0A]]
     = ''Hello''
   \<and> example_parse (drop 6 ''data: {not valid json}'') = None
   \<and> CHR 0x0A \<notin> set ''data: {not valid json}''
   \<and> run_decoder example_parse
        ([] @ [''data: {"choices":[{"delta":{"content":"Hel"}}]}'' @ CHR 0x0A #
               ''data: {not valid json}'' @ CHR 0x0A #
               ''data: {"choices":[{"delta":{"content":"lo"}}]}''] @ [''data: [DONE]''])
      = run_decoder example_parse
        ([] @ [''data: {"choices":[{"delta":{"content":"Hel"}}]}'' @ CHR 0x0A #
               ''data: {"choices":[{"delta":{"content":"lo"}}]}''] @ [''data: [DONE]''])\<close>
proof -
  have h0: \<open>\<forall>c \<in> set
     [''data: {"choices":[{"delta":{"content":"Hel"}}]}'' @ [CHR 0x0A],
      ''data: {"choices":[{"delta":{"content":"lo"}}]}'' @ CHR 0x0A # ''data: [DONE]'' @ [CHR 0x0A]].
       ends_at_line_boundary c\<close>
    by (simp add: ends_at_line_boundary_def)
  have h0': \<open>list_all ends_at_line_boundary
     [''data: {"choices":[{"delta":{"content":"Hel"}}]}'' @ [CHR 0x0A],
      ''data: {"choices":[{"delta":{"content":"lo"}}]}'' @ CHR 0x0A # ''data: [DONE]'' @ [CHR 0x0A]]\<close>
    by (simp add: ends_at_line_boundary_def)
  have h1: \<open>example_parse (drop 6 ''data: {not valid json}'') = None\<close>
    by (simp add: example_parse_def)
  have h2: \<open>CHR 0x0A \<notin> set ''data: {not valid json}''\<close>
    by simp
  have ev: \<open>handleStreamResponse example_parse
     [''data: {"choices":[{"delta":{"content":"Hel"}}]}'' @ [CHR 0x0A],
      ''data: {"choices":[{"delta":{"content":"lo"}}]}'' @ CHR 0x0A # ''data: [DONE]'' @ [CHR 0x0A]]
     = ''Hello''\<close>
    by code_simp
  note frames = decoder_concatenates_read_fragments
    [where parse = example_parse, THEN conjunct2, THEN conjunct1, THEN mp, OF h0]
  note inst = decoder_concatenates_read_fragments
    [where parse = example_parse and bad = \<open>''data: {not valid json}''\<close> and ?cs1.0 = \<open>[]\<close>
       and a = \<open>''data: {"choices":[{"delta":{"content":"Hel"}}]}''\<close>
       and b = \<open>''data: {"choices":[{"delta":{"content":"lo"}}]}''\<close>
       and ?cs2.0 = \<open>[''data: [DONE]'']\<close>,
     THEN conjunct2, THEN conjunct2, THEN mp, OF h1, THEN mp, OF h2]
  show ?thesis
    using h0' h1 h2 ev frames inst by blast
qed

text \<open>
  C4 as stated fails: the second frame of the stream is cut by the boundary between two
  reads; the frames of the stream have the fragments \<open>Hel\<close> and \<open>lo\<close>, and the decoder
  returns \<open>Hel\<close>: a fragment is dropped.
\<close>

theorem frame_cut_by_read_counterexample:
  \<open>handleStreamResponse example_parse
     [''data: {"choices":[{"delta":{"content":"Hel"}}]}'' @ CHR 0x0A # ''data: {"choices":[{"del'',
      ''ta":{"content":"lo"}}]}'' @ CHR 0x0A # ''data: [DONE]'' @ [CHR 0x0A]] = ''Hel''
   \<and> concat (map (fragment example_parse) (stream_frames
     [''data: {"choices":[{"delta":{"content":"Hel"}}]}'' @ CHR 0x0A # ''data: {"choices":[{"del'',
      ''ta":{"content":"lo"}}]}'' @ CHR 0x0A # ''data: [DONE]'' @ [CHR 0x0A]])) = ''Hello''\<close>
  by code_simp

text \<open>
  C7 (as the code has it). The sentinel line \<open>data: [DONE]\<close> is skipped: it is never
  handed to the parser and changes neither the accumulated text nor what is delivered.
  It does not end the decoding: the lines after it, in the same read and in later
  reads, are handled as if the sentinel were not there. Decoding ends when the stream
  does.
\<close>

theorem sentinel_is_skipped:
  "process_line parse st ''data: [DONE]'' = st
   \<and> run_decoder parse (cs1 @ [a @ CHR 0x0A # ''data: [DONE]'' @ CHR 0x0A # b] @ cs2)
       = run_decoder parse (cs1 @ [a @ CHR 0x0A # b] @ cs2)"
proof
  show skip: "process_line parse st ''data: [DONE]'' = st" for st
    by (simp add: process_line_def startsWith_def)
  have nl: "CHR 0x0A \<notin> set ''data: [DONE]''"
    by simp
  show "run_decoder parse (cs1 @ [a @ CHR 0x0A # ''data: [DONE]'' @ CHR 0x0A # b] @ cs2)
          = run_decoder parse (cs1 @ [a @ CHR 0x0A # b] @ cs2)"
    by (rule run_decoder_replace) (simp only: foldl.simps process_chunk_skip_line [OF nl skip])
qed

text \<open>
  C7 as stated fails: a frame that arrives after the sentinel, here in the next read, is
  parsed, appended to the accumulated text and delivered to the callback.
\<close>

theorem sentinel_stops_decoding_counterexample:
  \<open>run_decoder example_parse
     [''data: [DONE]'' @ [CHR 0x0A], ''data: {"choices":[{"delta":{"content":"lo"}}]}'' @ [CHR 0x0A]]
   = \<lparr>fullContent = ''lo'', delivered = [''lo'']\<rparr>\<close>
  by code_simp

text \<open>
  C8 (as the code has it). Nothing is carried over from one read to the next: each read
  is split into lines and decoded on its own. When a line is cut in two by the boundary
  between two reads and neither piece is by itself a \<open>data: \<close> line whose payload
  parses, both pieces are skipped, so the frame contributes nothing to the accumulated
  text and nothing is delivered for it.
\<close>

theorem split_frame_is_dropped:
  assumes "CHR 0x0A \<notin> set f" and "CHR 0x0A \<notin> set g"
    and "\<not> startsWith ''data: '' f \<or> parse (drop 6 f) = None"
    and "\<not> startsWith ''data: '' g \<or> parse (drop 6 g) = None"
  shows "run_decoder parse (cs1 @ [a @ CHR 0x0A # f, g @ CHR 0x0A # b] @ cs2)
           = run_decoder parse (cs1 @ [a, b] @ cs2)"
proof -
  have skip_f: "\<And>st. process_line parse st f = st"
    using assms(3) by (auto simp: process_line_skip)
  have skip_g: "\<And>st. process_line parse st g = st"
    using assms(4) by (auto simp: process_line_skip)
  show ?thesis
    by (rule run_decoder_replace)
       (simp add: process_chunk_skip_last [OF assms(1) skip_f]
                  process_chunk_skip_first [OF assms(2) skip_g])
qed

theorem split_frame_is_dropped_witness:
  \<open>CHR 0x0A \<notin> set ''data: {"choices":[{"delta":{"con''
   \<and> CHR 0x0A \<notin> set ''tent":"Hel"}}]}''
   \<and> example_parse (drop 6 ''data: {"choices":[{"delta":{"con'') = None
   \<and> \<not> startsWith ''data: '' ''tent":"Hel"}}]}''
   \<and> run_decoder example_parse
        ([] @ [[] @ CHR 0x0A # ''data: {"choices":[{"delta":{"con'',
               ''tent":"Hel"}}]}'' @ CHR 0x0A # []] @ [])
      = run_decoder example_parse ([] @ [[], []] @ [])\<close>
proof -
  have h1: \<open>CHR 0x0A \<notin> set ''data: {"choices":[{"delta":{"con''\<close>
    by simp
  have h2: \<open>CHR 0x0A \<notin> set ''tent":"Hel"}}]}''\<close>
    by simp
  have h3: \<open>example_parse (drop 6 ''data: {"choices":[{"delta":{"con'') = None\<close>
    by (simp add: example_parse_def)
  have h4: \<open>\<not> startsWith ''data: '' ''tent":"Hel"}}]}''\<close>
    by (simp add: startsWith_def)
  note inst = split_frame_is_dropped
    [where parse = example_parse, OF h1 h2 disjI2 [OF h3] disjI1 [OF h4],
     of \<open>[]\<close> \<open>[]\<close> \<open>[]\<close> \<open>[]\<close>]
  show ?thesis
    using h1 h2 h3 h4 inst by blast
qed

text \<open>
  C8 as stated fails: a frame whose bytes are split across two consecutive reads
  contributes nothing, while the same frame in one read contributes its fragment.
\<close>

theorem split_frame_counterexample:
  \<open>handleStreamResponse example_parse
     [''data: {"choices":[{"delta":{"con'', ''tent":"Hel"}}]}'' @ [CHR 0x0A]] = []
   \<and> handleStreamResponse example_parse
     [''data: {"choices":[{"delta":{"content":"Hel"}}]}'' @ [CHR 0x0A]] = ''Hel''\<close>
  by code_simp


section \<open>Properties of analysis versioning\<close>

text \<open>The criteria of the flip match no row: the boolean is not a key that can be compared.\<close>

lemma where_userId_latest_never: "\<not> where_userId_latest uid flag r"
  by (simp add: where_userId_latest_def key_equals_def valid_key_def)

lemma modify_no_match: "(\<And>r. \<not> matches r) \<Longrightarrow> modify matches change t = t"
  by (simp add: modify_def)

lemma flip_changes_nothing:
  "modify (where_userId_latest uid True) change t = t"
  by (rule modify_no_match) (rule where_userId_latest_never)

lemma startAnalysis_effect:
  assumes "current_uid ctx = Some uid"
  shows "startAnalysis fault now ctx res db =
     (case fault of
        ModifyRejects \<Rightarrow> (Inl StoreRejected, db)
      | AddRejects \<Rightarrow> (Inl StoreRejected, db)
      | NoFault \<Rightarrow>
          (Inr (), db\<lparr>analyses := (analyses db)
             \<lparr>rows := rows (analyses db) @ [(nextKey (analyses db), analysisRecord now uid res)],
              nextKey := Suc (nextKey (analyses db))\<rparr>\<rparr>))"
  using assms
  by (cases fault) (simp_all add: startAnalysis_def flip_changes_nothing add_def Let_def)

lemma startAnalysis_guarded:
  "current_uid ctx = None \<Longrightarrow> startAnalysis fault now ctx res db = (Inr (), db)"
  by (simp add: startAnalysis_def)

lemma analysis_rows_startAnalysis:
  assumes "current_uid ctx = Some uid"
  shows "analysis_rows (snd (startAnalysis fault now ctx res db)) =
     (if fault = NoFault then analysis_rows db @ [analysisRecord now uid res]
      else analysis_rows db)"
  using assms by (cases fault) (simp_all add: startAnalysis_effect analysis_rows_def)

lemma run_calls_snoc: "run_calls (cs @ [c]) db = run_call c (run_calls cs db)"
  by (simp add: run_calls_def)

lemma analysis_rows_empty: "analysis_rows empty_store = []"
  by (simp add: analysis_rows_def empty_store_def empty_table_def)

lemma analysis_rows_run_call:
  "analysis_rows (run_call c db) =
     (case current_uid (call_ctx c) of
        None \<Rightarrow> analysis_rows db
      | Some uid \<Rightarrow>
          if call_fault c = NoFault
          then analysis_rows db @ [analysisRecord (call_now c) uid (call_result c)]
          else analysis_rows db)"
  by (cases "current_uid (call_ctx c)")
     (simp_all add: run_call_def startAnalysis_guarded analysis_rows_startAnalysis)

lemma latest_rows_after_call:
  assumes "current_uid ctx = Some uid"
  shows "latest_rows uid (snd (startAnalysis NoFault now ctx res db))
           = latest_rows uid db @ [analysisRecord now uid res]"
  using assms
  by (simp add: latest_rows_def user_rows_def analysis_rows_startAnalysis analysisRecord_def)

lemma analyses_run_call:
  "table_keys (analyses (run_call c db)) =
     (if current_uid (call_ctx c) \<noteq> None \<and> call_fault c = NoFault
      then table_keys (analyses db) @ [nextKey (analyses db)]
      else table_keys (analyses db))
   \<and> nextKey (analyses (run_call c db)) =
     (if current_uid (call_ctx c) \<noteq> None \<and> call_fault c = NoFault
      then Suc (nextKey (analyses db))
      else nextKey (analyses db))"
proof (cases "current_uid (call_ctx c)")
  case None
  then show ?thesis by (simp add: run_call_def startAnalysis_guarded)
next
  case (Some uid)
  then show ?thesis
    by (cases "call_fault c") (simp_all add: run_call_def startAnalysis_effect table_keys_def)
qed

text \<open>
  In every store reached from the empty one the keys of the analysis rows are distinct
  and below the key generator, so that a generated key is never taken.
\<close>

lemma analyses_keys_fresh:
  "distinct (table_keys (analyses (run_calls cs empty_store)))
   \<and> (\<forall>k \<in> set (table_keys (analyses (run_calls cs empty_store))).
         k < nextKey (analyses (run_calls cs empty_store)))"
proof (induction cs rule: rev_induct)
  case Nil
  then show ?case
    by (simp add: run_calls_def empty_store_def empty_table_def table_keys_def)
next
  case (snoc c cs)
  then show ?case
    by (auto simp: run_calls_snoc analyses_run_call)
qed

text \<open>
  A property that every new record has, holds of every analysis row of every store
  reached from the empty one.
\<close>

lemma rows_invariant:
  assumes new: "\<And>now uid res. P (analysisRecord now uid (res :: 'p AnalysisResult))"
  shows "\<forall>r \<in> set (analysis_rows (run_calls cs (empty_store :: 'p Store))). P r"
proof (induction cs rule: rev_induct)
  case Nil
  then show ?case by (simp add: run_calls_def analysis_rows_empty)
next
  case (snoc c cs)
  then show ?case
    using new
    by (cases "current_uid (call_ctx c)") (auto simp: run_calls_snoc analysis_rows_run_call)
qed

lemma all_versions_one:
  "\<forall>r \<in> set (analysis_rows (run_calls cs empty_store)). version r = 1"
  by (rule rows_invariant) (simp add: analysisRecord_def)

lemma analysisRecord_truthy: "js_truthy (interestsConfirmed (analysisRecord now uid res))"
  by (simp add: analysisRecord_def js_or_def js_truthy_def)

text \<open>
  C1 (the code at a failing input). User 1 records two analyses from the empty store,
  both calls completing. The flip of the second call matches no row, so the first row
  keeps \<open>latest = true\<close>: the user has two latest rows, where the claim allows one.
\<close>

theorem second_analysis_leaves_two_latest_rows:
  "map createdAt (latest_rows 1
     (run_calls [example_call NoFault 10 1, example_call NoFault 11 1] empty_store)) = [10, 11]
   \<and> length (latest_rows 1
     (run_calls [example_call NoFault 10 1, example_call NoFault 11 1] empty_store)) = 2"
  by code_simp

text \<open>
  C2 (as the code has it). Every analysis row that \<open>startAnalysis\<close> writes has
  \<open>version = 1\<close>, the first one of a user and every later one, whatever rows the store
  holds and however the calls of different users interleave: a completed call appends
  the record it built, and in every store reached from the empty one all analysis rows
  have version 1.
\<close>

theorem every_version_is_one:
  "version (analysisRecord now uid (res :: 'p AnalysisResult)) = 1
   \<and> (current_uid ctx = Some uid \<longrightarrow>
        analysis_rows (snd (startAnalysis NoFault now ctx res db))
          = analysis_rows db @ [analysisRecord now uid res])
   \<and> (\<forall>r \<in> set (analysis_rows (run_calls cs (empty_store :: 'p Store))). version r = 1)"
  using all_versions_one [of cs] analysis_rows_startAnalysis [of ctx uid NoFault now res db]
  by (simp add: analysisRecord_def)

theorem every_version_is_one_witness:
  "current_uid (example_ctx 1) = Some 1
   \<and> analysis_rows (snd (startAnalysis NoFault 20 (example_ctx 1) example_result example_db))
       = analysis_rows example_db @ [analysisRecord 20 1 example_result]
   \<and> analysisRecord 12 1 example_result \<in> set (analysis_rows (run_calls example_calls empty_store))
   \<and> version (analysisRecord 12 1 example_result) = 1
   \<and> map version (analysis_rows (run_calls example_calls empty_store)) = [1, 1, 1]"
proof -
  have g: "current_uid (example_ctx 1) = Some 1"
    by (simp add: current_uid_def example_ctx_def)
  have mem: "analysisRecord 12 1 example_result \<in> set (analysis_rows (run_calls example_calls empty_store))"
    by code_simp
  have ev: "map version (analysis_rows (run_calls example_calls empty_store)) = [1, 1, 1]"
    by code_simp
  note call = every_version_is_one [where ctx = "example_ctx 1" and uid = 1 and now = 20
      and res = example_result and db = example_db, THEN conjunct2, THEN conjunct1, THEN mp, OF g]
  note inst = every_version_is_one [where cs = example_calls, THEN conjunct2, THEN conjunct2,
      THEN bspec, OF mem]
  show ?thesis using g mem ev call inst by blast
qed

text \<open>
  C2 as stated fails: the second analysis recorded for user 1 has version 1, while the
  largest version among the user's rows before it was 1, so that the claim asks for 2.
\<close>

theorem version_increment_counterexample:
  "map version (user_rows 1 (run_calls [example_call NoFault 10 1, example_call NoFault 11 1] empty_store))
     = [1, 1]
   \<and> next_version 1 (run_calls [example_call NoFault 10 1] empty_store) = 2"
  by code_simp




text \<open>
  C10 (as the code has it). The record that \<open>startAnalysis\<close> builds has a truthy
  \<open>interestsConfirmed\<close> for every analysis result, and never the boolean \<open>false\<close>: the
  stored field is \<open>true\<close> when the result's field is a boolean, true or false, or is
  absent or falsy in any other way, and it is the result's own value when that is
  truthy, a non-boolean one included. A completed call appends that record to the
  analysis rows, and every analysis row of every store reached from the empty one by
  calls of \<open>startAnalysis\<close> has a truthy \<open>interestsConfirmed\<close>.
\<close>

theorem interests_confirmed_is_truthy:
  "js_truthy (interestsConfirmed (analysisRecord now uid (res :: 'p AnalysisResult)))
   \<and> interestsConfirmed (analysisRecord now uid res) \<noteq> JBool False
   \<and> (res_interestsConfirmed res = JBool b \<longrightarrow>
        interestsConfirmed (analysisRecord now uid res) = JBool True)
   \<and> (\<not> js_truthy (res_interestsConfirmed res) \<longrightarrow>
        interestsConfirmed (analysisRecord now uid res) = JBool True)
   \<and> (js_truthy (res_interestsConfirmed res) \<longrightarrow>
        interestsConfirmed (analysisRecord now uid res) = res_interestsConfirmed res)
   \<and> (current_uid ctx = Some uid \<longrightarrow>
        analysis_rows (snd (startAnalysis NoFault now ctx res db))
          = analysis_rows db @ [analysisRecord now uid res])
   \<and> (\<forall>r \<in> set (analysis_rows (run_calls cs (empty_store :: 'p Store))).
         js_truthy (interestsConfirmed r))"
proof (intro conjI impI)
  show t: "js_truthy (interestsConfirmed (analysisRecord now uid res))"
    by (rule analysisRecord_truthy)
  then show "interestsConfirmed (analysisRecord now uid res) \<noteq> JBool False"
    by (auto simp: js_truthy_def)
  show "interestsConfirmed (analysisRecord now uid res) = JBool True"
    if "res_interestsConfirmed res = JBool b"
    using that by (cases b) (simp_all add: analysisRecord_def js_or_def js_truthy_def)
  show "interestsConfirmed (analysisRecord now uid res) = JBool True"
    if "\<not> js_truthy (res_interestsConfirmed res)"
    using that by (simp add: analysisRecord_def js_or_def)
  show "interestsConfirmed (analysisRecord now uid res) = res_interestsConfirmed res"
    if "js_truthy (res_interestsConfirmed res)"
    using that by (simp add: analysisRecord_def js_or_def)
  show "analysis_rows (snd (startAnalysis NoFault now ctx res db))
          = analysis_rows db @ [analysisRecord now uid res]"
    if "current_uid ctx = Some uid"
    using that by (simp add: analysis_rows_startAnalysis)
  show "\<forall>r \<in> set (analysis_rows (run_calls cs (empty_store :: 'p Store))).
          js_truthy (interestsConfirmed r)"
    by (rule rows_invariant) (rule analysisRecord_truthy)
qed

theorem interests_confirmed_is_truthy_witness:
  "res_interestsConfirmed example_result = JBool False
   \<and> interestsConfirmed (analysisRecord 11 2 example_result) = JBool True
   \<and> js_truthy (res_interestsConfirmed string_result)
   \<and> interestsConfirmed (analysisRecord 11 2 string_result) = JStr ''false''
   \<and> current_uid (example_ctx 2) = Some 2
   \<and> analysis_rows (snd (startAnalysis NoFault 11 (example_ctx 2) example_result example_db))
       = analysis_rows example_db @ [analysisRecord 11 2 example_result]
   \<and> analysisRecord 11 2 example_result \<in> set (analysis_rows (run_calls example_calls empty_store))
   \<and> js_truthy (interestsConfirmed (analysisRecord 11 2 example_result))
   \<and> map interestsConfirmed (analysis_rows (run_calls example_calls empty_store))
       = [JBool True, JBool True, JBool True]"
proof -
  have h: "res_interestsConfirmed example_result = JBool False"
    by (simp add: example_result_def)
  have nt: "\<not> js_truthy (res_interestsConfirmed example_result)"
    by (simp add: example_result_def js_truthy_def)
  have st: "js_truthy (res_interestsConfirmed string_result)"
    by (simp add: string_result_def js_truthy_def)
  have sv: "res_interestsConfirmed string_result = JStr ''false''"
    by (simp add: string_result_def)
  have g: "current_uid (example_ctx 2) = Some 2"
    by (simp add: current_uid_def example_ctx_def)
  have mem: "analysisRecord 11 2 example_result \<in> set (analysis_rows (run_calls example_calls empty_store))"
    by code_simp
  have ev: "map interestsConfirmed (analysis_rows (run_calls example_calls empty_store))
              = [JBool True, JBool True, JBool True]"
    by code_simp
  note T = interests_confirmed_is_truthy
  note i1 = T [where res = example_result and now = 11 and uid = 2 and b = False,
      THEN conjunct2, THEN conjunct2, THEN conjunct1, THEN mp, OF h]
  note i2 = T [where res = example_result and now = 11 and uid = 2,
      THEN conjunct2, THEN conjunct2, THEN conjunct2, THEN conjunct1, THEN mp, OF nt]
  note i3 = T [where res = string_result and now = 11 and uid = 2,
      THEN conjunct2, THEN conjunct2, THEN conjunct2, THEN conjunct2, THEN conjunct1, THEN mp, OF st]
  note i4 = T [where res = example_result and now = 11 and uid = 2 and ctx = "example_ctx 2"
      and db = example_db,
      THEN conjunct2, THEN conjunct2, THEN conjunct2, THEN conjunct2, THEN conjunct2,
      THEN conjunct1, THEN mp, OF g]
  note i5 = T [where cs = example_calls,
      THEN conjunct2, THEN conjunct2, THEN conjunct2, THEN conjunct2, THEN conjunct2,
      THEN conjunct2, THEN bspec, OF mem]
  show ?thesis using h st sv g mem ev i1 i2 i3 i4 i5 by simp
qed

text \<open>
  C10 as stated fails: for a result whose \<open>interestsConfirmed\<close> is the string \<open>false\<close>
  the row written holds that string, not the boolean \<open>true\<close>.
\<close>

theorem interests_string_counterexample:
  "map interestsConfirmed
     (analysis_rows (snd (startAnalysis NoFault 10 (example_ctx 1) string_result empty_store)))
     = [JStr ''false'']
   \<and> JStr ''false'' \<noteq> JBool True"
  by code_simp

section \<open>Properties of the backup codec\<close>

lemma add_all_fresh:
  "distinct (map fst xs) \<Longrightarrow> set (map fst xs) \<inter> set (table_keys t) = {} \<Longrightarrow>
     \<exists>t'. add_all (map (\<lambda>(k, r). (Some k, r)) xs) t = Inr t' \<and> rows t' = rows t @ xs"
proof (induction xs arbitrary: t)
  case Nil
  then show ?case by simp
next
  case (Cons x xs)
  obtain k r where x: "x = (k, r)" by (cases x)
  let ?t1 = "t\<lparr>rows := rows t @ [(k, r)], nextKey := max (nextKey t) (Suc k)\<rparr>"
  from Cons.prems x have fresh: "k \<notin> set (table_keys t)" by auto
  then have step: "add (Some k, r) t = Inr ?t1"
    by (simp add: add_def)
  from Cons.prems x have "distinct (map fst xs)" and "set (map fst xs) \<inter> set (table_keys ?t1) = {}"
    by (auto simp: table_keys_def)
  from Cons.IH [OF this] obtain t' where "add_all (map (\<lambda>(k, r). (Some k, r)) xs) ?t1 = Inr t'"
    and "rows t' = rows ?t1 @ xs" by blast
  with step x show ?case by simp
qed

lemma toArray_set: "set (toArray t) = set (rows t)"
  by (simp add: toArray_def)

lemma toArray_distinct: "distinct_keys t \<Longrightarrow> distinct (map fst (toArray t))"
  by (simp add: toArray_def distinct_keys_def table_keys_def distinct_map)

text \<open>Clearing a table and adding the rows it exported gives back the same set of rows.\<close>

lemma reimport_table:
  assumes "distinct_keys t"
  shows "\<exists>t'. bulkAdd False (or_empty (exported_rows t)) (clear t) = Inr t'
              \<and> set (rows t') = set (rows t)"
proof -
  have "set (map fst (toArray t)) \<inter> set (table_keys (clear t)) = {}"
    by (simp add: clear_def table_keys_def)
  from add_all_fresh [OF toArray_distinct [OF assms] this]
  obtain t' where "add_all (map (\<lambda>(k, r). (Some k, r)) (toArray t)) (clear t) = Inr t'"
    and "rows t' = rows (clear t) @ toArray t" by blast
  then show ?thesis
    by (auto simp: bulkAdd_def or_empty_def exported_rows_def clear_def toArray_set)
qed

lemma forced_fails:
  "forced n \<Longrightarrow> \<exists>e. import_scope forced backupData db = Inl e"
  by (cases n)
     (auto simp: import_scope_def and_then_def bulkAdd_def split: option.splits sum.splits)

text \<open>
  C5. Whenever \<open>importData\<close> fails, the store it leaves is the store it was given,
  every table with its contents from before the import; and when the bulk insert of any
  one table is rejected, \<open>importData\<close> does fail. The clearing and the inserts all run
  in the scope of one transaction, so that no store between them is ever committed.
\<close>

theorem import_is_atomic:
  "(fst (importData forced backupData db) \<noteq> Inr () \<longrightarrow> snd (importData forced backupData db) = db)
   \<and> (forced n \<longrightarrow> (\<exists>e. importData forced backupData db = (Inl e, db)))"
proof (intro conjI impI)
  assume "fst (importData forced backupData db) \<noteq> Inr ()"
  then show "snd (importData forced backupData db) = db"
    by (simp add: importData_def transaction_def split: sum.splits)
next
  assume "forced n"
  then obtain e where "import_scope forced backupData db = Inl e"
    using forced_fails [of forced n backupData db] by blast
  then show "\<exists>e. importData forced backupData db = (Inl e, db)"
    by (simp add: importData_def transaction_def)
qed

theorem import_is_atomic_witness:
  "fst (importData no_faults conflicting_backup example_store) \<noteq> Inr ()
   \<and> snd (importData no_faults conflicting_backup example_store) = example_store
   \<and> only_analyses_fails Analyses
   \<and> (\<exists>e. importData only_analyses_fails (exportAllData ''2024-01-01T00:00:00.000Z'' example_store)
             example_store = (Inl e, example_store))
   \<and> rows (users example_store) \<noteq> []"
proof -
  have h1: "fst (importData no_faults conflicting_backup example_store) \<noteq> Inr ()"
    by code_simp
  have h2: "only_analyses_fails Analyses"
    by (simp add: only_analyses_fails_def)
  have ne: "rows (users example_store) \<noteq> []"
    by code_simp
  note inst1 = import_is_atomic [where forced = no_faults and backupData = conflicting_backup
      and db = example_store, THEN conjunct1, THEN mp, OF h1]
  note inst2 = import_is_atomic [where forced = only_analyses_fails and n = Analyses
      and backupData = "exportAllData ''2024-01-01T00:00:00.000Z'' example_store"
      and db = example_store, THEN conjunct2, THEN mp, OF h2]
  show ?thesis using h1 h2 ne inst1 inst2 by blast
qed

text \<open>
  C6. For every store in which primary keys identify rows, importing the document that
  \<open>exportAllData\<close> produced from it succeeds and leaves, in each of the seven tables,
  the same set of rows (keys included) as before the export.
\<close>

theorem backup_round_trip:
  assumes "wf_store db"
  shows "\<exists>db'. importData no_faults (exportAllData stamp db) db = (Inr (), db')
               \<and> same_row_sets db' db"
proof -
  from assms have d: "distinct_keys (users db)" "distinct_keys (studentProfiles db)"
    "distinct_keys (professionalProfiles db)" "distinct_keys (analyses db)"
    "distinct_keys (chatThreads db)" "distinct_keys (chatMessages db)" "distinct_keys (settings db)"
    by (simp_all add: wf_store_def)
  obtain t1 where t1:
      "bulkAdd False (or_empty (exported_rows (users db))) (clear (users db)) = Inr t1"
      "set (rows t1) = set (rows (users db))"
    using reimport_table [OF d(1)] by blast
  obtain t2 where t2:
      "bulkAdd False (or_empty (exported_rows (studentProfiles db))) (clear (studentProfiles db)) = Inr t2"
      "set (rows t2) = set (rows (studentProfiles db))"
    using reimport_table [OF d(2)] by blast
  obtain t3 where t3:
      "bulkAdd False (or_empty (exported_rows (professionalProfiles db)))
         (clear (professionalProfiles db)) = Inr t3"
      "set (rows t3) = set (rows (professionalProfiles db))"
    using reimport_table [OF d(3)] by blast
  obtain t4 where t4:
      "bulkAdd False (or_empty (exported_rows (analyses db))) (clear (analyses db)) = Inr t4"
      "set (rows t4) = set (rows (analyses db))"
    using reimport_table [OF d(4)] by blast
  obtain t5 where t5:
      "bulkAdd False (or_empty (exported_rows (chatThreads db))) (clear (chatThreads db)) = Inr t5"
      "set (rows t5) = set (rows (chatThreads db))"
    using reimport_table [OF d(5)] by blast
  obtain t6 where t6:
      "bulkAdd False (or_empty (exported_rows (chatMessages db))) (clear (chatMessages db)) = Inr t6"
      "set (rows t6) = set (rows (chatMessages db))"
    using reimport_table [OF d(6)] by blast
  obtain t7 where t7:
      "bulkAdd False (or_empty (exported_rows (settings db))) (clear (settings db)) = Inr t7"
      "set (rows t7) = set (rows (settings db))"
    using reimport_table [OF d(7)] by blast
  have "import_scope no_faults (exportAllData stamp db) db =
          Inr \<lparr>users = t1, studentProfiles = t2, professionalProfiles = t3, analyses = t4,
               chatThreads = t5, chatMessages = t6, settings = t7\<rparr>"
    by (simp add: import_scope_def exportAllData_def no_faults_def and_then_def t1 t2 t3 t4 t5 t6 t7)
  then show ?thesis
    by (simp add: importData_def transaction_def same_row_sets_def t1 t2 t3 t4 t5 t6 t7)
qed

theorem backup_round_trip_witness:
  "wf_store example_store
   \<and> (\<exists>db'. importData no_faults (exportAllData ''2024-01-01T00:00:00.000Z'' example_store)
               example_store = (Inr (), db')
            \<and> same_row_sets db' example_store)
   \<and> length (rows (analyses example_store)) = 3"
proof -
  have h: "wf_store example_store"
    by code_simp
  have n: "length (rows (analyses example_store)) = 3"
    by code_simp
  note inst = backup_round_trip [OF h, of "''2024-01-01T00:00:00.000Z''"]
  show ?thesis using h n inst by blast
qed

section \<open>Properties of the credential holder\<close>

lemma getApiKey_session_slot:
  "getApiKey b = (if truthy (sessionStorage b ''openai-api-key'')
                  then sessionStorage b ''openai-api-key'' else None)"
  by (simp add: getApiKey_def Let_def split: option.splits)

lemma sessionStorage_setApiKey:
  "sessionStorage (setApiKey now key persistent b) =
     (if persistent then sessionStorage b else (sessionStorage b)(''openai-api-key'' \<mapsto> key))"
  by (simp add: setApiKey_def Let_def)

text \<open>
  C9 (as the code has it). For every non-empty key, after \<open>setApiKey\<close> in session mode
  \<open>getApiKey\<close> returns that key. \<open>setApiKey\<close> in persistent mode does not change what
  \<open>getApiKey\<close> returns: \<open>getApiKey\<close> never returns the content of the persistent slot,
  it returns the key of the session slot when that is present and not empty, and
  \<open>null\<close> otherwise. After \<open>clearApiKey\<close> it returns \<open>null\<close>.
\<close>

theorem saved_key_is_read_in_session_mode:
  "(key \<noteq> [] \<longrightarrow> getApiKey (setApiKey now key False b) = Some key)
   \<and> getApiKey (setApiKey now key True b) = getApiKey b
   \<and> getApiKey b = (if truthy (sessionStorage b ''openai-api-key'')
                     then sessionStorage b ''openai-api-key'' else None)
   \<and> getApiKey (clearApiKey now b) = None"
  by (simp add: getApiKey_session_slot sessionStorage_setApiKey truthy_def clearApiKey_def)

theorem saved_key_is_read_in_session_mode_witness:
  "''sk-test'' \<noteq> []
   \<and> getApiKey (setApiKey 1 ''sk-test'' False (fresh_browser None)) = Some ''sk-test''
   \<and> getApiKey (setApiKey 2 ''sk-other'' True (setApiKey 1 ''sk-test'' False (fresh_browser None)))
       = Some ''sk-test''"
  using saved_key_is_read_in_session_mode [of "''sk-test''" 1 "fresh_browser None"]
    saved_key_is_read_in_session_mode [of "''sk-other''" 2 "setApiKey 1 ''sk-test'' False (fresh_browser None)"]
  by simp

text \<open>
  C9 as stated fails: a key saved in persistent mode is stored in the persistent slot,
  and the settings say so, but \<open>getApiKey\<close> returns \<open>null\<close>; and an empty key saved
  in session mode is not returned either.
\<close>

theorem persistent_key_is_not_read_counterexample:
  "getApiKey (setApiKey 1 ''sk-test'' True (fresh_browser (Some default_settings))) = None
   \<and> localStorage (setApiKey 1 ''sk-test'' True (fresh_browser (Some default_settings)))
        ''openai-api-key-encrypted'' = Some ''sk-test''
   \<and> map_option openaiKeyStored (current_settings (settingsStore
        (setApiKey 1 ''sk-test'' True (fresh_browser (Some default_settings))))) = Some encrypted_local
   \<and> getApiKey (setApiKey 1 [] False (fresh_browser (Some default_settings))) = None"
  by (simp add: getApiKey_def setApiKey_def fresh_browser_def default_settings_def truthy_def
                updateSetting_openaiKeyStored_def Let_def)


end
